theory Spec2Isabelle
  imports Complex_Main "HOL-Library.Multiset" "HOL-Library.AList"
begin

section \<open>The torrent health checker of Tribler (torrent\_checker.py)\<close>

text \<open>
  A shallow embedding of \<^verbatim>\<open>Tribler/Core/TorrentChecker/torrent_checker.py\<close>.
  The class \<^verbatim>\<open>TorrentChecker\<close> becomes a record of its attributes together with the
  state of the collaborators it writes to (the metadata store, the popularity community,
  the notifier); every method becomes a function that takes the record and returns the
  updated one. Python exceptions are values of the type \<open>error\<close>. Methods whose Python
  name starts with an underscore drop it.
\<close>

subsection \<open>Data\<close>

datatype error =
    AttributeError
  | IndexError
  | KeyError
  | ValueError
  | MalformedTrackerURLException

text \<open>
  The dictionary a session reports for one infohash:
  \<^verbatim>\<open>{'infohash': ..., 'seeders': ..., 'leechers': ...}\<close>. The update dictionary of
  \<^verbatim>\<open>on_gui_request_completed\<close> adds \<^verbatim>\<open>last_check\<close>, and the stored
  \<^verbatim>\<open>TorrentState\<close> entity adds the tracker urls of the torrent.
\<close>

record health =
  infohash :: string
  seeders :: int
  leechers :: int

record torrent_update = health +
  last_check :: int

record torrent_state = torrent_update +
  trackers :: "string list"

text \<open>
  The exception classes that \<^verbatim>\<open>on_session_error\<close> tells apart; \<open>OtherError\<close> stands
  for every class that \<^verbatim>\<open>failure.trap\<close> does not list.
\<close>

datatype failure_class =
    ValueErrorF
  | CancelledError
  | ConnectingCancelledError
  | ConnectionLost
  | RuntimeError
  | OtherError

text \<open>
  A Twisted \<^verbatim>\<open>Failure\<close>. The attribute \<^verbatim>\<open>tracker_url\<close> does not exist until
  \<^verbatim>\<open>on_session_error\<close> has set it.
\<close>

record failure =
  failure_class :: failure_class
  error_message :: string
  failure_tracker_url :: "string option"

text \<open>
  What a participant of an aggregated check hands to the \<^verbatim>\<open>DeferredList\<close>: a failure,
  a dictionary from tracker url to a list of health dictionaries, or \<^verbatim>\<open>None\<close>
  (the value \<^verbatim>\<open>_on_result_from_session\<close> returns once the checker is stopping).
  A dictionary is an association list; \<^verbatim>\<open>keys()[0]\<close> is its first entry.
\<close>

datatype response =
    Failure failure
  | Dict "(string \<times> health list) list"
  | NoneResponse

type_synonym outcome = "bool \<times> response"

datatype final_entry =
    ErrorEntry string
  | HealthEntry health

type_synonym final_response = "string \<rightharpoonup> final_entry"

subsection \<open>Reconciliation: the loop of on\_gui\_request\_completed\<close>

text \<open>
  \<^verbatim>\<open>response[response.keys()[0]][0]\<close> together with the key: an object without
  \<^verbatim>\<open>keys\<close> raises AttributeError, an empty dictionary or an empty list IndexError.
\<close>

fun first_entry :: "response \<Rightarrow> error + (string \<times> health)" where
  "first_entry (Failure f) = Inl AttributeError"
| "first_entry NoneResponse = Inl AttributeError"
| "first_entry (Dict []) = Inl IndexError"
| "first_entry (Dict ((k, []) # kvs)) = Inl IndexError"
| "first_entry (Dict ((k, h # hs) # kvs)) = Inr (k, h)"

text \<open>
  One pass of the loop body (lines 186 to 198), on the accumulated
  \<^verbatim>\<open>final_response\<close> and the current \<^verbatim>\<open>seeders\<close> and \<^verbatim>\<open>leechers\<close> of
  \<^verbatim>\<open>torrent_update_dict\<close>.
\<close>

fun reconcile_step :: "outcome \<Rightarrow> final_response \<times> int \<times> int \<Rightarrow> error + (final_response \<times> int \<times> int)" where
  "reconcile_step (success, Failure f) (fr, cs, cl) =
     (if \<not> success then
        (case failure_tracker_url f of
           None \<Rightarrow> Inl AttributeError
         | Some u \<Rightarrow> Inr (fr(u \<mapsto> ErrorEntry (error_message f)), cs, cl))
      else Inl AttributeError)"
| "reconcile_step (success, response) (fr, cs, cl) =
     (case first_entry response of
        Inl e \<Rightarrow> Inl e
      | Inr (k, h) \<Rightarrow>
          (let s = seeders h; l = leechers h in
           if s > cs \<or> (s = cs \<and> l > cl)
           then Inr (fr(k \<mapsto> HealthEntry h), s, l)
           else Inr (fr(k \<mapsto> HealthEntry h), cs, cl)))"

fun reconcile_loop :: "outcome list \<Rightarrow> final_response \<times> int \<times> int \<Rightarrow> error + (final_response \<times> int \<times> int)" where
  "reconcile_loop [] acc = Inr acc"
| "reconcile_loop (x # xs) acc =
     (case reconcile_step x acc of
        Inl e \<Rightarrow> Inl e
      | Inr acc' \<Rightarrow> reconcile_loop xs acc')"

text \<open>
  The loop as the method runs it: over \<^verbatim>\<open>reversed(result)\<close>, from an empty
  \<^verbatim>\<open>final_response\<close> and the counts 0 and 0.
\<close>

definition reconcile :: "outcome list \<Rightarrow> error + (final_response \<times> int \<times> int)" where
  "reconcile result = reconcile_loop (rev result) (Map.empty, 0, 0)"

definition reconciled_pair :: "outcome list \<Rightarrow> (int \<times> int) option" where
  "reconciled_pair result =
     (case reconcile result of Inl e \<Rightarrow> None | Inr (fr, s, l) \<Rightarrow> Some (s, l))"

text \<open>
  The vocabulary of the specification: an outcome is handled (the loop body does not
  raise on it) when it is a failure that carries its tracker url or a result dictionary
  whose first entry has a health dictionary; the successful pairs are the counts of the
  result dictionaries.
\<close>

definition handled :: "outcome \<Rightarrow> bool" where
  "handled x = (case reconcile_step x (Map.empty, 0, 0) of Inl e \<Rightarrow> False | Inr a \<Rightarrow> True)"

fun successful_pair :: "outcome \<Rightarrow> (int \<times> int) list" where
  "successful_pair (success, Failure f) = []"
| "successful_pair (success, response) =
     (case first_entry response of
        Inl e \<Rightarrow> []
      | Inr (k, h) \<Rightarrow> [(seeders h, leechers h)])"

definition successful_pairs :: "outcome list \<Rightarrow> (int \<times> int) list" where
  "successful_pairs result = concat (map successful_pair result)"

text \<open>\<open>better p q\<close>: the update test of lines 195 and 196, pair \<open>p\<close> against the current \<open>q\<close>.\<close>

definition better :: "int \<times> int \<Rightarrow> int \<times> int \<Rightarrow> bool" where
  "better p q = (fst p > fst q \<or> (fst p = fst q \<and> snd p > snd q))"

definition pick :: "int \<times> int \<Rightarrow> int \<times> int \<Rightarrow> int \<times> int" where
  "pick p q = (if better p q then p else q)"


subsection \<open>The checker and its collaborators\<close>

text \<open>
  A session object is known to the checker by reference. The registry
  \<^verbatim>\<open>_session_list\<close> holds references (\<open>sid\<close>, the identity of the object); a value
  of type \<open>session\<close> is the object as a method sees it when it is called.
\<close>

record session =
  sid :: nat
  tracker_url :: string
  is_failed :: bool
  timeout :: int
  infohashes :: "string list"

text \<open>
  The deferreds collected in \<^verbatim>\<open>session_stop_defer_list\<close>: each is a new object
  (a number, drawn from \<open>next_id\<close>) that remembers which call made it.
\<close>

datatype deferred_kind =
    StopListening
  | CloseCachedConnections
  | Cleanup nat

type_synonym deferred = "nat \<times> deferred_kind"

text \<open>
  \<^verbatim>\<open>TrackerState\<close> of the metadata store: \<^verbatim>\<open>tracker.failures\<close> is a counter that
  never goes below zero (the code computes \<^verbatim>\<open>2 ** tracker.failures\<close> as an integer),
  \<^verbatim>\<open>tracker.torrents\<close> refers to torrents by infohash.
\<close>

record tracker_state =
  failures :: nat
  torrents :: "string list"

type_synonym content = "string \<times> int \<times> int \<times> int"

datatype ntfy_subject = NTFY_TORRENT
datatype ntfy_change = NTFY_UPDATE

record notification =
  subject :: ntfy_subject
  change_type :: ntfy_change
  object_id :: string
  num_seeders :: int
  num_leechers :: int
  last_tracker_check :: int
  health_text :: string

record checker =
  should_stop :: bool
  torrent_check_interval :: int
  torrent_check_retry_interval :: int
  max_torrent_check_retries :: int
  session_list :: "(string \<times> nat list) list"
  last_torrent_selection_time :: int
  session_stop_defer_list :: "deferred list"
  udp_port :: bool
  connection_pool :: bool
  pending_tasks :: "string list"
  next_id :: nat
  torrent_states :: "string \<rightharpoonup> torrent_state"
  tracker_states :: "string \<rightharpoonup> tracker_state"
  popularity_community :: "content list option"
  notifications :: "notification list"

definition DEFAULT_TORRENT_SELECTION_INTERVAL :: int where
  "DEFAULT_TORRENT_SELECTION_INTERVAL = 20"

definition DEFAULT_TORRENT_CHECK_INTERVAL :: int where
  "DEFAULT_TORRENT_CHECK_INTERVAL = 900"

definition DEFAULT_MAX_TORRENT_CHECK_RETRIES :: int where
  "DEFAULT_MAX_TORRENT_CHECK_RETRIES = 8"

definition DEFAULT_TORRENT_CHECK_RETRY_INTERVAL :: int where
  "DEFAULT_TORRENT_CHECK_RETRY_INTERVAL = 30"

text \<open>
  \<^verbatim>\<open>__init__\<close>, given what the Tribler session holds: the two tables of the metadata
  store and the popularity community (absent when it is \<^verbatim>\<open>None\<close>).
\<close>

definition init :: "(string \<rightharpoonup> torrent_state) \<Rightarrow> (string \<rightharpoonup> tracker_state) \<Rightarrow> content list option \<Rightarrow> checker" where
  "init store trackers_table community =
     \<lparr>should_stop = False,
      torrent_check_interval = DEFAULT_TORRENT_CHECK_INTERVAL,
      torrent_check_retry_interval = DEFAULT_TORRENT_CHECK_RETRY_INTERVAL,
      max_torrent_check_retries = DEFAULT_MAX_TORRENT_CHECK_RETRIES,
      session_list = [(''DHT'', [])],
      last_torrent_selection_time = 0,
      session_stop_defer_list = [],
      udp_port = False,
      connection_pool = False,
      pending_tasks = [],
      next_id = 0,
      torrent_states = store,
      tracker_states = trackers_table,
      popularity_community = community,
      notifications = []\<rparr>"


text \<open>\<^verbatim>\<open>int(time.time())\<close>: the clock is a real number, \<^verbatim>\<open>int\<close> truncates toward zero.\<close>

definition py_int :: "real \<Rightarrow> int" where
  "py_int x = (if 0 \<le> x then \<lfloor>x\<rfloor> else \<lceil>x\<rceil>)"

text \<open>\<^verbatim>\<open>binascii.hexlify\<close>: two lower-case hexadecimal digits for each byte.\<close>

definition hex_digit :: "nat \<Rightarrow> char" where
  "hex_digit n = ''0123456789abcdef'' ! (n mod 16)"

definition hexlify :: "string \<Rightarrow> string" where
  "hexlify bs = concat (map (\<lambda>b. [hex_digit (of_char b div 16), hex_digit (of_char b mod 16)]) bs)"

text \<open>
  Modelled from the spec: \<^verbatim>\<open>tracker_manager.update_tracker_info\<close> is not part of this
  file. The specification calls it \<^verbatim>\<open>recordTrackerCheckOutcome(identity, success)\<close>:
  success clears the failure count of the tracker, a reported failure increments it.
  A tracker without a record has no count to change.
\<close>

definition update_tracker_info :: "checker \<Rightarrow> string \<Rightarrow> bool \<Rightarrow> checker" where
  "update_tracker_info c url is_successful =
     (case tracker_states c url of
        None \<Rightarrow> c
      | Some t \<Rightarrow>
          c\<lparr>tracker_states :=
              (tracker_states c)(url \<mapsto> t\<lparr>failures := (if is_successful then 0 else failures t + 1)\<rparr>)\<rparr>)"

text \<open>
  Modelled from the spec: \<^verbatim>\<open>session.cleanup()\<close> belongs to the session classes, which
  are not part of this file. The specification gives it as
  \<^verbatim>\<open>ProbeSession.cleanup() -> eventual completion\<close>, releasing the resources of the
  session: here it returns a new deferred and touches nothing of the checker.
  \<open>append_stop_defer\<close> is \<^verbatim>\<open>self.session_stop_defer_list.append(...)\<close> on that new object.
\<close>

definition append_stop_defer :: "checker \<Rightarrow> deferred_kind \<Rightarrow> checker" where
  "append_stop_defer c k =
     c\<lparr>session_stop_defer_list := session_stop_defer_list c @ [(next_id c, k)],
       next_id := next_id c + 1\<rparr>"

subsection \<open>The session registry\<close>

text \<open>
  Modelled from the spec: \<^verbatim>\<open>create_tracker_session\<close> is the session factory
  (\<^verbatim>\<open>createProbeSession\<close>); it raises MalformedTrackerURLException on a url it cannot
  parse (\<open>malformed\<close>), and the session it returns carries the url it was given.
\<close>

definition create_tracker_session :: "(string \<Rightarrow> bool) \<Rightarrow> nat \<Rightarrow> string \<Rightarrow> int \<Rightarrow> error + session" where
  "create_tracker_session malformed new_sid url tmo =
     (if malformed url then Inl MalformedTrackerURLException
      else Inr \<lparr>sid = new_sid, tracker_url = url, is_failed = False, timeout = tmo, infohashes = []\<rparr>)"

definition create_session_for_request :: "(string \<Rightarrow> bool) \<Rightarrow> checker \<Rightarrow> string \<Rightarrow> int \<Rightarrow> (error + session) \<times> checker" where
  "create_session_for_request malformed c url tmo =
     (case create_tracker_session malformed (next_id c) url tmo of
        Inl e \<Rightarrow> (Inl e, c)
      | Inr s \<Rightarrow>
          (let reg1 = (if map_of (session_list c) url = None
                       then AList.update url [] (session_list c) else session_list c);
               reg2 = AList.map_entry url (\<lambda>ss. ss @ [sid s]) reg1
           in (Inr s, c\<lparr>session_list := reg2, next_id := next_id c + 1\<rparr>)))"

text \<open>
  \<^verbatim>\<open>clean_session\<close>. The tracker outcome is recorded and the cleanup started before the
  registry is touched, so both stay done when the lookup raises KeyError or
  \<^verbatim>\<open>list.remove\<close> raises ValueError.
\<close>

definition clean_session :: "checker \<Rightarrow> session \<Rightarrow> (error + unit) \<times> checker" where
  "clean_session c s =
     (let c1 = update_tracker_info c (tracker_url s) (\<not> is_failed s);
          c2 = append_stop_defer c1 (Cleanup (sid s))
      in case map_of (session_list c2) (tracker_url s) of
           None \<Rightarrow> (Inl KeyError, c2)
         | Some ss \<Rightarrow>
             if sid s \<notin> set ss then (Inl ValueError, c2)
             else
               (let ss' = remove1 (sid s) ss;
                    c3 = c2\<lparr>session_list := AList.update (tracker_url s) ss' (session_list c2)\<rparr>
                in if length ss' = 0 \<and> tracker_url s \<noteq> ''DHT''
                   then (Inr (), c3\<lparr>session_list := AList.delete (tracker_url s) (session_list c3)\<rparr>)
                   else (Inr (), c3)))"

text \<open>
  \<^verbatim>\<open>_on_result_from_session\<close>: once the checker is stopping the result is dropped
  (the method returns \<^verbatim>\<open>None\<close>) and the session is not cleaned.
\<close>

definition on_result_from_session :: "checker \<Rightarrow> session \<Rightarrow> (string \<times> health list) list \<Rightarrow> (error + response) \<times> checker" where
  "on_result_from_session c s result_list =
     (if should_stop c then (Inr NoneResponse, c)
      else (case clean_session c s of
              (Inl e, c1) \<Rightarrow> (Inl e, c1)
            | (Inr u, c1) \<Rightarrow> (Inr (Dict result_list), c1)))"

text \<open>
  \<^verbatim>\<open>on_session_error\<close>. \<^verbatim>\<open>failure.trap\<close> raises the failure again when its class is
  not listed, so the failure goes on as it came. Otherwise the session is cleaned, the
  tracker is told about the failure unless it is a cancellation, and the failure goes
  on with the tracker url attached.
\<close>

definition on_session_error :: "checker \<Rightarrow> session \<Rightarrow> failure \<Rightarrow> (error + failure) \<times> checker" where
  "on_session_error c s f =
     (if failure_class f = OtherError then (Inr f, c)
      else (case clean_session c s of
              (Inl e, c1) \<Rightarrow> (Inl e, c1)
            | (Inr u, c1) \<Rightarrow>
                (let c2 = (if failure_class f \<noteq> CancelledError \<and> failure_class f \<noteq> ConnectingCancelledError
                           then update_tracker_info c1 (tracker_url s) False else c1)
                 in (Inr (f\<lparr>failure_tracker_url := Some (tracker_url s)\<rparr>), c2))))"


subsection \<open>Persisting and publishing a reconciled result\<close>

definition update_torrent_result :: "checker \<Rightarrow> torrent_update \<Rightarrow> checker" where
  "update_torrent_result c response =
     (case torrent_states c (infohash response) of
        None \<Rightarrow> c
      | Some torrent \<Rightarrow>
          c\<lparr>torrent_states :=
              (torrent_states c)(infohash response \<mapsto>
                 torrent\<lparr>seeders := seeders response,
                         leechers := leechers response,
                         last_check := last_check response\<rparr>)\<rparr>)"

definition publish_torrent_result :: "checker \<Rightarrow> torrent_update \<Rightarrow> checker" where
  "publish_torrent_result c response =
     (if seeders response = 0 then c
      else (case popularity_community c of
              Some queue \<Rightarrow>
                c\<lparr>popularity_community :=
                    Some (queue @ [(infohash response, seeders response, leechers response, last_check response)])\<rparr>
            | None \<Rightarrow> c))"

definition notify_torrent_update :: "checker \<Rightarrow> torrent_update \<Rightarrow> checker" where
  "notify_torrent_update c d =
     c\<lparr>notifications := notifications c @
         [\<lparr>subject = NTFY_TORRENT, change_type = NTFY_UPDATE, object_id = infohash d,
           num_seeders = seeders d, num_leechers = leechers d,
           last_tracker_check = last_check d, health_text = ''updated''\<rparr>]\<rparr>"

text \<open>
  \<^verbatim>\<open>on_gui_request_completed\<close>, with the reading \<open>now\<close> of \<^verbatim>\<open>time.time()\<close>. An
  exception of the loop leaves the method before anything is written.
\<close>

definition on_gui_request_completed :: "checker \<Rightarrow> string \<Rightarrow> outcome list \<Rightarrow> real \<Rightarrow> error + (final_response \<times> checker)" where
  "on_gui_request_completed c ih result now =
     (case reconcile result of
        Inl e \<Rightarrow> Inl e
      | Inr (final, s, l) \<Rightarrow>
          (let torrent_update_dict = \<lparr>infohash = ih, seeders = s, leechers = l, last_check = py_int now\<rparr>;
               c1 = update_torrent_result c torrent_update_dict;
               c2 = publish_torrent_result c1 torrent_update_dict;
               c3 = notify_torrent_update c2 torrent_update_dict
           in Inr (final, c3)))"

subsection \<open>An on-demand check: add\_gui\_request\<close>

text \<open>
  What \<^verbatim>\<open>add_gui_request\<close> hands back: the stored values at once
  (\<^verbatim>\<open>succeed({"db": {...}})\<close>), or the list of the sessions whose probes it has started
  and whose outcomes \<^verbatim>\<open>on_gui_request_completed\<close> will receive.
\<close>

datatype gui_request =
    Stored health
  | Started "session list"

text \<open>
  \<^verbatim>\<open>get_valid_trackers_of_torrent\<close>: the set of the valid tracker urls of the stored
  torrent, as a list without repetition; \<open>is_valid_url\<close> is the imported predicate.
\<close>

definition get_valid_trackers_of_torrent :: "(string \<Rightarrow> bool) \<Rightarrow> checker \<Rightarrow> string \<Rightarrow> error + string list" where
  "get_valid_trackers_of_torrent is_valid_url c torrent_id =
     (case torrent_states c torrent_id of
        None \<Rightarrow> Inl AttributeError
      | Some t \<Rightarrow> Inr (remdups (filter is_valid_url (trackers t))))"

text \<open>The loop of lines 243 to 247: one session for each tracker, the infohash attached.\<close>

fun create_sessions :: "(string \<Rightarrow> bool) \<Rightarrow> checker \<Rightarrow> string list \<Rightarrow> int \<Rightarrow> string \<Rightarrow> session list \<Rightarrow> (error + session list) \<times> checker" where
  "create_sessions malformed c [] tmo ih started = (Inr started, c)"
| "create_sessions malformed c (url # urls) tmo ih started =
     (case create_session_for_request malformed c url tmo of
        (Inl e, c1) \<Rightarrow> (Inl e, c1)
      | (Inr s, c1) \<Rightarrow>
          create_sessions malformed c1 urls tmo ih (started @ [s\<lparr>infohashes := infohashes s @ [ih]\<rparr>]))"

text \<open>
  Lines 250 and 251: the \<^verbatim>\<open>FakeDHTSession\<close> is appended to \<^verbatim>\<open>_session_list['DHT']\<close>,
  which raises KeyError when the key is absent.
\<close>

definition add_dht_session :: "checker \<Rightarrow> string \<Rightarrow> int \<Rightarrow> (error + session) \<times> checker" where
  "add_dht_session c ih tmo =
     (let s = \<lparr>sid = next_id c, tracker_url = ''DHT'', is_failed = False, timeout = tmo, infohashes = [ih]\<rparr>;
          c1 = c\<lparr>next_id := next_id c + 1\<rparr>
      in case map_of (session_list c1) ''DHT'' of
           None \<Rightarrow> (Inl KeyError, c1)
         | Some ss \<Rightarrow> (Inr s, c1\<lparr>session_list := AList.update ''DHT'' (ss @ [sid s]) (session_list c1)\<rparr>))"

definition start_sessions :: "(string \<Rightarrow> bool) \<Rightarrow> checker \<Rightarrow> string list \<Rightarrow> int \<Rightarrow> string \<Rightarrow> (error + gui_request) \<times> checker" where
  "start_sessions malformed c tracker_set tmo ih =
     (case create_sessions malformed c tracker_set tmo ih [] of
        (Inl e, c1) \<Rightarrow> (Inl e, c1)
      | (Inr started, c1) \<Rightarrow>
          (case add_dht_session c1 ih tmo of
             (Inl e, c2) \<Rightarrow> (Inl e, c2)
           | (Inr dht, c2) \<Rightarrow> (Inr (Started (started @ [dht])), c2)))"

definition add_gui_request :: "(string \<Rightarrow> bool) \<Rightarrow> (string \<Rightarrow> bool) \<Rightarrow> checker \<Rightarrow> string \<Rightarrow> int \<Rightarrow> bool \<Rightarrow> real \<Rightarrow> (error + gui_request) \<times> checker" where
  "add_gui_request is_valid_url malformed c ih tmo scrape_now now =
     (case torrent_states c ih of
        None \<Rightarrow> start_sessions malformed c [] tmo ih
      | Some result \<Rightarrow>
          (let time_diff = now - real_of_int (last_check result) in
           if time_diff < real_of_int (torrent_check_interval c) \<and> \<not> scrape_now
           then (Inr (Stored \<lparr>infohash = hexlify ih, seeders = seeders result, leechers = leechers result\<rparr>), c)
           else (case get_valid_trackers_of_torrent is_valid_url c (infohash result) of
                   Inl e \<Rightarrow> (Inl e, c)
                 | Inr tracker_set \<Rightarrow> start_sessions malformed c tracker_set tmo ih)))"

subsection \<open>Shutdown\<close>






subsection \<open>Selecting the torrents to recheck\<close>

text \<open>
  Lines 124 to 131 of \<^verbatim>\<open>_task_select_tracker\<close>, with \<open>now\<close> the value of
  \<^verbatim>\<open>int(time.time())\<close>.
\<close>

definition dynamic_interval :: "checker \<Rightarrow> tracker_state \<Rightarrow> int" where
  "dynamic_interval c tracker = torrent_check_retry_interval c * (2 ^ failures tracker)"

definition due_for_recheck :: "checker \<Rightarrow> tracker_state \<Rightarrow> torrent_state \<Rightarrow> int \<Rightarrow> bool" where
  "due_for_recheck c tracker torrent now = (last_check torrent + dynamic_interval c tracker < now)"

definition select_infohashes :: "checker \<Rightarrow> string \<Rightarrow> real \<Rightarrow> string list" where
  "select_infohashes c url clock =
     (case tracker_states c url of
        None \<Rightarrow> []
      | Some tracker \<Rightarrow>
          map infohash
            (filter (\<lambda>torrent. due_for_recheck c tracker torrent (py_int clock))
               (List.map_filter (torrent_states c) (torrents tracker))))"


subsection \<open>The vocabulary of the specification\<close>

text \<open>
  The contract the specification gives for the backoff policy, in its own words:
  \<^verbatim>\<open>now - lastCheckedAt >= baseRetryInterval * 2^min(failureCount, maxRetries)\<close>.
\<close>

definition spec_dueForRecheck :: "int \<Rightarrow> nat \<Rightarrow> int \<Rightarrow> nat \<Rightarrow> int \<Rightarrow> bool" where
  "spec_dueForRecheck baseRetryInterval maxRetries lastCheckedAt failureCount now =
     (now - lastCheckedAt \<ge> baseRetryInterval * 2 ^ min failureCount maxRetries)"

text \<open>
  The invariant of the session registry: the key \<^verbatim>\<open>'DHT'\<close> is present, and no other
  key maps to an empty list.
\<close>

definition registry_inv :: "(string \<times> nat list) list \<Rightarrow> bool" where
  "registry_inv reg =
     (map_of reg ''DHT'' \<noteq> None \<and>
      (\<forall>k ss. map_of reg k = Some ss \<longrightarrow> k \<noteq> ''DHT'' \<longrightarrow> ss \<noteq> []))"


subsection \<open>Example inputs\<close>

definition ex_failure :: failure where
  "ex_failure =
     \<lparr>failure_class = ConnectionLost, error_message = ''lost'',
      failure_tracker_url = Some ''udp://a:1''\<rparr>"

definition ex_outcomes :: "outcome list" where
  "ex_outcomes =
     [(False, Failure ex_failure),
      (True, Dict [(''udp://b:2'', [\<lparr>infohash = ''ab'', seeders = 5, leechers = 2\<rparr>])]),
      (True, Dict [(''DHT'', [\<lparr>infohash = ''ab'', seeders = 5, leechers = 9\<rparr>])])]"

definition ex_outcomes_permuted :: "outcome list" where
  "ex_outcomes_permuted =
     [(True, Dict [(''DHT'', [\<lparr>infohash = ''ab'', seeders = 5, leechers = 9\<rparr>])]),
      (False, Failure ex_failure),
      (True, Dict [(''udp://b:2'', [\<lparr>infohash = ''ab'', seeders = 5, leechers = 2\<rparr>])])]"

definition ex_zero_outcomes :: "outcome list" where
  "ex_zero_outcomes =
     [(True, Dict [(''udp://a:1'', [\<lparr>infohash = ''ab'', seeders = 0, leechers = 4\<rparr>])]),
      (True, Dict [(''DHT'', [\<lparr>infohash = ''ab'', seeders = 0, leechers = 7\<rparr>])])]"


text \<open>
  A store with one torrent, last checked at time 0, and one tracker; a checker on it,
  the same checker with a session for the tracker, and that one initialized.
\<close>

definition ex_torrent :: torrent_state where
  "ex_torrent =
     \<lparr>infohash = ''ab'', seeders = 4, leechers = 6, last_check = 0, trackers = [''udp://a:1'']\<rparr>"

definition ex_tracker :: "nat \<Rightarrow> tracker_state" where
  "ex_tracker n = \<lparr>failures = n, torrents = [''ab'']\<rparr>"

definition ex_checker :: checker where
  "ex_checker = init [''ab'' \<mapsto> ex_torrent] [''udp://a:1'' \<mapsto> ex_tracker 3] (Some [])"

definition ex_session :: "bool \<Rightarrow> session" where
  "ex_session failed =
     \<lparr>sid = 0, tracker_url = ''udp://a:1'', is_failed = failed, timeout = 30, infohashes = [''ab'']\<rparr>"

definition ex_registered :: checker where
  "ex_registered = snd (create_session_for_request (\<lambda>u. False) ex_checker ''udp://a:1'' 30)"


definition ex_cancelled :: failure where
  "ex_cancelled =
     \<lparr>failure_class = CancelledError, error_message = ''cancelled'', failure_tracker_url = None\<rparr>"

definition ex_zero_completed :: "error + (final_response \<times> checker)" where
  "ex_zero_completed = on_gui_request_completed ex_checker ''ab'' ex_zero_outcomes (4001 / 4)"


section \<open>Properties\<close>

subsection \<open>Reconciliation\<close>

lemma reconcile_step_pair:
  "reconcile_step x (fr, p) = Inr (fr', p') \<Longrightarrow> p' = fold pick (successful_pair x) p"
  by (cases x; cases "snd x"; cases p)
     (auto simp: pick_def better_def Let_def split: if_splits option.splits sum.splits)

lemma reconcile_loop_pair:
  "reconcile_loop xs (fr, p) = Inr (fr', p') \<Longrightarrow> p' = fold pick (successful_pairs xs) p"
proof (induction xs arbitrary: fr p)
  case Nil
  then show ?case by (simp add: successful_pairs_def)
next
  case (Cons x xs)
  from Cons.prems obtain fr1 p1 where
    s: "reconcile_step x (fr, p) = Inr (fr1, p1)" and l: "reconcile_loop xs (fr1, p1) = Inr (fr', p')"
    by (auto split: sum.splits)
  from reconcile_step_pair[OF s] Cons.IH[OF l] show ?case
    by (simp add: successful_pairs_def)
qed

lemma handled_step:
  "handled x \<Longrightarrow> \<exists>a. reconcile_step x (fr, p) = Inr a"
  by (cases x; cases "snd x"; cases p)
     (auto simp: handled_def Let_def split: if_splits option.splits sum.splits)

lemma handled_loop:
  "\<forall>x \<in> set xs. handled x \<Longrightarrow> \<exists>a. reconcile_loop xs acc = Inr a"
proof (induction xs arbitrary: acc)
  case Nil show ?case by (simp del: split_paired_Ex)
next
  case (Cons x xs)
  obtain fr p where acc: "acc = (fr, p)" by (cases acc) auto
  from Cons.prems handled_step[of x fr p] obtain a where "reconcile_step x acc = Inr a"
    by (auto simp: acc)
  with Cons show ?case by simp
qed

lemma step_Inr_handled:
  "reconcile_step x (fr, p) = Inr a \<Longrightarrow> handled x"
  by (cases x; cases "snd x"; cases p)
     (auto simp: handled_def Let_def split: if_splits option.splits sum.splits)

lemma loop_Inr_handled:
  "reconcile_loop xs acc = Inr a \<Longrightarrow> \<forall>x \<in> set xs. handled x"
proof (induction xs arbitrary: acc)
  case Nil show ?case by simp
next
  case (Cons x xs)
  obtain fr p where acc: "acc = (fr, p)" by (cases acc) auto
  from Cons.prems obtain b where
    s: "reconcile_step x (fr, p) = Inr b" and l: "reconcile_loop xs b = Inr a"
    by (auto simp: acc split: sum.splits)
  from step_Inr_handled[OF s] Cons.IH[OF l] show ?case by simp
qed

text \<open>The loop is a running maximum: it raises on an outcome it cannot read, and
  otherwise folds \<open>pick\<close> over the successful pairs, from the pair of zeros.\<close>

lemma reconciled_pair_eq:
  "reconciled_pair xs =
     (if \<forall>x \<in> set xs. handled x then Some (fold pick (successful_pairs (rev xs)) (0, 0)) else None)"
proof (cases "reconcile_loop (rev xs) (Map.empty, 0, 0)")
  case (Inl e)
  have "\<not> (\<forall>x \<in> set xs. handled x)"
  proof
    assume "\<forall>x \<in> set xs. handled x"
    then have "\<forall>x \<in> set (rev xs). handled x" by simp
    from handled_loop[OF this, of "(Map.empty, 0, 0)"] Inl show False by simp
  qed
  with Inl show ?thesis by (simp add: reconciled_pair_def reconcile_def)
next
  case (Inr a)
  obtain fr p where a: "a = (fr, p)" by (cases a) auto
  from loop_Inr_handled[OF Inr] have h: "\<forall>x \<in> set xs. handled x" by simp
  from Inr have "p = fold pick (successful_pairs (rev xs)) (0, 0)"
    unfolding a by (rule reconcile_loop_pair)
  with Inr h show ?thesis
    by (cases p) (simp add: reconciled_pair_def reconcile_def a)
qed

lemma fold_pick_mem: "fold pick ps p \<in> insert p (set ps)"
  by (induction ps arbitrary: p) (auto simp: pick_def)

lemma not_better_trans: "\<not> better q p \<Longrightarrow> \<not> better p r \<Longrightarrow> \<not> better q r"
  by (auto simp: better_def)

lemma fold_pick_ge_init: "\<not> better p (fold pick ps p)"
proof (induction ps arbitrary: p)
  case Nil show ?case by (simp add: better_def)
next
  case (Cons a ps)
  have "\<not> better p (pick a p)" by (auto simp: pick_def better_def)
  with Cons[of "pick a p"] show ?case using not_better_trans by fastforce
qed

lemma fold_pick_max: "q \<in> set ps \<Longrightarrow> \<not> better q (fold pick ps p)"
proof (induction ps arbitrary: p)
  case Nil then show ?case by simp
next
  case (Cons a ps)
  show ?case
  proof (cases "q = a")
    case True
    have "\<not> better a (pick a p)" by (auto simp: pick_def better_def)
    with fold_pick_ge_init[of "pick a p" ps] True show ?thesis
      using not_better_trans by fastforce
  next
    case False
    with Cons show ?thesis by simp
  qed
qed

lemma mset_successful_pairs:
  "mset (successful_pairs xs) = (\<Sum>x \<in># mset xs. mset (successful_pair x))"
  by (induction xs) (simp_all add: successful_pairs_def)

lemma pick_commute: "pick a (pick b p) = pick b (pick a p)"
  by (cases a; cases b; cases p) (auto simp: pick_def better_def)

lemma fold_pick_mset:
  assumes "mset ps = mset qs"
  shows "fold pick ps p = fold pick qs p"
proof -
  have "fold pick ps = fold pick qs"
    by (rule fold_multiset_equiv[OF _ assms]) (auto simp: fun_eq_iff pick_commute)
  then show ?thesis by simp
qed

lemma set_successful_pairs_rev: "set (successful_pairs (rev xs)) = set (successful_pairs xs)"
  by (simp add: successful_pairs_def)

lemma successful_pairs_filter:
  "successful_pairs (filter (\<lambda>x. successful_pair x \<noteq> []) xs) = successful_pairs xs"
  by (induction xs) (simp_all add: successful_pairs_def)

lemma ex_successful_pairs: "successful_pairs ex_outcomes = [(5, 2), (5, 9)]"
  by (simp add: successful_pairs_def ex_outcomes_def)

lemma ex_handled: "list_all handled ex_outcomes"
  by (simp add: ex_outcomes_def handled_def ex_failure_def)

text \<open>
  C1. Among outcomes that the loop can read, of which at least one is successful, and
  whose counts are not negative, the reconciled pair is one of the successful pairs, no
  successful pair has more seeders, none with as many seeders has more leechers, and
  dropping the failed outcomes gives the same pair.
\<close>

theorem reconcile_max_seeders_then_leechers:
  assumes h: "\<forall>x \<in> set result. handled x"
    and ne: "successful_pairs result \<noteq> []"
    and nn: "\<forall>q \<in> set (successful_pairs result). 0 \<le> fst q \<and> 0 \<le> snd q"
  shows "\<exists>p. reconciled_pair result = Some p \<and> p \<in> set (successful_pairs result) \<and>
           (\<forall>q \<in> set (successful_pairs result). fst q < fst p \<or> (fst q = fst p \<and> snd q \<le> snd p)) \<and>
           reconciled_pair (filter (\<lambda>x. successful_pair x \<noteq> []) result) = Some p"
proof -
  let ?ps = "successful_pairs (rev result)"
  let ?p = "fold pick ?ps (0, 0)"
  have r: "reconciled_pair result = Some ?p" using h by (simp add: reconciled_pair_eq)
  have mx: "\<And>q. q \<in> set (successful_pairs result) \<Longrightarrow> \<not> better q ?p"
    using fold_pick_max[of _ ?ps "(0, 0)"] by (simp add: set_successful_pairs_rev)
  have mem: "?p \<in> set (successful_pairs result)"
  proof (rule ccontr)
    assume n: "?p \<notin> set (successful_pairs result)"
    with fold_pick_mem[of ?ps "(0, 0)"] have z: "?p = (0, 0)"
      by (simp add: set_successful_pairs_rev)
    from ne obtain q where q: "q \<in> set (successful_pairs result)"
      by (cases "successful_pairs result") auto
    from mx[OF q] z have "\<not> better q (0, 0)" by simp
    moreover from nn q have "0 \<le> fst q \<and> 0 \<le> snd q" by blast
    ultimately have "q = (0, 0)" by (cases q) (auto simp: better_def)
    with q z n show False by simp
  qed
  have le: "\<forall>q \<in> set (successful_pairs result). fst q < fst ?p \<or> (fst q = fst ?p \<and> snd q \<le> snd ?p)"
  proof
    fix q assume "q \<in> set (successful_pairs result)"
    from mx[OF this] show "fst q < fst ?p \<or> (fst q = fst ?p \<and> snd q \<le> snd ?p)"
      unfolding better_def by linarith
  qed
  have flt: "successful_pairs (rev (filter (\<lambda>x. successful_pair x \<noteq> []) result)) = ?ps"
    by (simp only: rev_filter successful_pairs_filter)
  have "\<forall>x \<in> set (filter (\<lambda>x. successful_pair x \<noteq> []) result). handled x" using h by simp
  then have "reconciled_pair (filter (\<lambda>x. successful_pair x \<noteq> []) result) = Some ?p"
    by (simp add: reconciled_pair_eq flt del: set_filter)
  with r mem le show ?thesis by blast
qed

theorem reconcile_max_seeders_then_leechers_witness:
  "list_all handled ex_outcomes \<and> successful_pairs ex_outcomes = [(5, 2), (5, 9)] \<and>
   reconciled_pair ex_outcomes = Some (5, 9)"
proof -
  have h: "\<forall>x \<in> set ex_outcomes. handled x" using ex_handled by (simp add: list_all_iff)
  have ne: "successful_pairs ex_outcomes \<noteq> []" by (simp add: ex_successful_pairs)
  have nn: "\<forall>q \<in> set (successful_pairs ex_outcomes). 0 \<le> fst q \<and> 0 \<le> snd q"
    by (simp add: ex_successful_pairs)
  from reconcile_max_seeders_then_leechers[OF h ne nn] have "reconciled_pair ex_outcomes = Some (5, 9)"
    by (auto simp: ex_successful_pairs)
  with ex_handled ex_successful_pairs show ?thesis by simp
qed

text \<open>
  C7. Two lists with the same outcomes in any order reconcile to the same pair of
  seeders and leechers (and the loop raises on one exactly when it raises on the other).
\<close>

theorem reconcile_order_independent:
  assumes "mset result = mset result'"
  shows "reconciled_pair result = reconciled_pair result'"
proof -
  from assms have s: "set result = set result'" by (rule mset_eq_setD)
  from assms have "mset (rev result) = mset (rev result')" by simp
  then have "mset (successful_pairs (rev result)) = mset (successful_pairs (rev result'))"
    by (simp only: mset_successful_pairs)
  then have "fold pick (successful_pairs (rev result)) (0, 0) = fold pick (successful_pairs (rev result')) (0, 0)"
    by (rule fold_pick_mset)
  with s show ?thesis by (simp add: reconciled_pair_eq)
qed

theorem reconcile_order_independent_witness:
  "mset ex_outcomes = mset ex_outcomes_permuted \<and>
   reconciled_pair ex_outcomes_permuted = Some (5, 9) \<and>
   reconciled_pair ex_outcomes = Some (5, 9)"
proof -
  have m: "mset ex_outcomes = mset ex_outcomes_permuted"
    by (simp add: ex_outcomes_def ex_outcomes_permuted_def)
  have p: "reconciled_pair ex_outcomes_permuted = Some (5, 9)"
    by (simp add: reconciled_pair_def reconcile_def ex_outcomes_permuted_def ex_failure_def)
  from reconcile_order_independent[OF m] m p show ?thesis by simp
qed


subsection \<open>The backoff of the periodic selection\<close>

lemma ex_checker_simps:
  "torrent_check_retry_interval ex_checker = 30"
  "max_torrent_check_retries ex_checker = 8"
  "torrent_check_interval ex_checker = 900"
  "torrent_states ex_checker ''ab'' = Some ex_torrent"
  "popularity_community ex_checker = Some []"
  "notifications ex_checker = []"
  by (simp_all add: ex_checker_def init_def DEFAULT_TORRENT_CHECK_RETRY_INTERVAL_def
      DEFAULT_MAX_TORRENT_CHECK_RETRIES_def DEFAULT_TORRENT_CHECK_INTERVAL_def)

text \<open>
  C2, as the specification states it, fails on the boundary: with no failure, a retry
  interval of 30 and a torrent last checked at 0, the contract calls the torrent due at
  time 30, and the test of line 130 (\<^verbatim>\<open>last_check + dynamic_interval < now\<close>) does not.
\<close>

theorem due_for_recheck_boundary_counterexample:
  "spec_dueForRecheck (torrent_check_retry_interval ex_checker) (nat (max_torrent_check_retries ex_checker))
     (last_check ex_torrent) (failures (ex_tracker 0)) 30 \<and>
   \<not> due_for_recheck ex_checker (ex_tracker 0) ex_torrent 30"
  by (simp add: spec_dueForRecheck_def due_for_recheck_def dynamic_interval_def ex_checker_simps
      ex_torrent_def ex_tracker_def)

text \<open>
  C2, amended. While the failure count of the tracker is at most the configured maximum
  of retries, a torrent is due for recheck exactly when the time since its last check is
  strictly greater than the retry interval times two to the power of the failure count
  (which is then the clamped exponent). The test is a total function of integers that
  do not overflow.
\<close>

theorem due_for_recheck_strict:
  assumes "int (failures tracker) \<le> max_torrent_check_retries c"
  shows "due_for_recheck c tracker torrent now \<longleftrightarrow>
           now - last_check torrent >
             torrent_check_retry_interval c * 2 ^ min (failures tracker) (nat (max_torrent_check_retries c))"
proof -
  from assms have "min (failures tracker) (nat (max_torrent_check_retries c)) = failures tracker"
    by linarith
  then show ?thesis
    by (simp add: due_for_recheck_def dynamic_interval_def) linarith
qed

theorem due_for_recheck_strict_witness:
  "int (failures (ex_tracker 3)) \<le> max_torrent_check_retries ex_checker \<and>
   due_for_recheck ex_checker (ex_tracker 3) ex_torrent 241 \<and>
   \<not> due_for_recheck ex_checker (ex_tracker 3) ex_torrent 240"
proof -
  have h: "int (failures (ex_tracker 3)) \<le> max_torrent_check_retries ex_checker"
    by (simp add: ex_tracker_def ex_checker_simps)
  from due_for_recheck_strict[OF h, of ex_torrent 241] due_for_recheck_strict[OF h, of ex_torrent 240] h
  show ?thesis
    by (simp add: ex_tracker_def ex_checker_simps ex_torrent_def)
qed

text \<open>
  Above the maximum of retries the code keeps doubling: \<^verbatim>\<open>_max_torrent_check_retries\<close>
  is set in \<^verbatim>\<open>__init__\<close> and read nowhere, so with 9 failures the interval is
  \<open>30 * 2 ^ 9\<close> and not \<open>30 * 2 ^ 8\<close>.
\<close>

lemma dynamic_interval_not_clamped:
  "dynamic_interval ex_checker (ex_tracker 9) = 15360"
  by (simp add: dynamic_interval_def ex_checker_simps ex_tracker_def)

subsection \<open>The short circuit of an on-demand check\<close>

lemma hexlify_ab: "hexlify ''ab'' = ''6162''"
  by (simp add: hexlify_def hex_digit_def)

text \<open>
  C6. When the torrent has a stored record, the time since its last check is below the
  check interval, and \<^verbatim>\<open>scrape_now\<close> is false, \<^verbatim>\<open>add_gui_request\<close> returns the stored
  seeders and leechers at once and the checker is exactly as before: no session is
  created or registered, and the store is unchanged.
\<close>

theorem add_gui_request_short_circuit:
  assumes "torrent_states c ih = Some r"
    and "now - real_of_int (last_check r) < real_of_int (torrent_check_interval c)"
    and "\<not> scrape_now"
  shows "add_gui_request is_valid_url malformed c ih tmo scrape_now now =
           (Inr (Stored \<lparr>infohash = hexlify ih, seeders = seeders r, leechers = leechers r\<rparr>), c)"
  using assms by (simp add: add_gui_request_def)

theorem add_gui_request_short_circuit_witness:
  "torrent_states ex_checker ''ab'' = Some ex_torrent \<and>
   add_gui_request (\<lambda>u. True) (\<lambda>u. False) ex_checker ''ab'' 20 False (1799 / 2) =
     (Inr (Stored \<lparr>infohash = ''6162'', seeders = 4, leechers = 6\<rparr>), ex_checker)"
proof -
  have a: "torrent_states ex_checker ''ab'' = Some ex_torrent"
    by (simp add: ex_checker_simps)
  have b: "1799 / 2 - real_of_int (last_check ex_torrent) < real_of_int (torrent_check_interval ex_checker)"
    by (simp add: ex_torrent_def ex_checker_simps)
  from add_gui_request_short_circuit[OF a b, of False "\<lambda>u. True" "\<lambda>u. False" 20] a
  show ?thesis by (simp add: hexlify_ab ex_torrent_def)
qed

subsection \<open>Persisting and publishing\<close>

lemma reconcile_of_pair:
  "reconciled_pair result = Some (s, l) \<longleftrightarrow> (\<exists>final. reconcile result = Inr (final, s, l))"
  by (auto simp: reconciled_pair_def split: sum.splits)

lemma reconciled_seeders_nonneg:
  assumes "reconciled_pair result = Some (s, l)"
  shows "0 \<le> s"
proof -
  from assms have e: "fold pick (successful_pairs (rev result)) (0, 0) = (s, l)"
    by (simp add: reconciled_pair_eq split: if_splits)
  from fold_pick_ge_init[of "(0, 0)" "successful_pairs (rev result)"] show ?thesis
    unfolding e by (auto simp: better_def)
qed

lemma update_torrent_result_simps:
  "popularity_community (update_torrent_result c d) = popularity_community c"
  "notifications (update_torrent_result c d) = notifications c"
  "torrent_states c (infohash d) = Some t \<Longrightarrow>
     torrent_states (update_torrent_result c d) =
       (torrent_states c)(infohash d \<mapsto> t\<lparr>seeders := seeders d, leechers := leechers d, last_check := last_check d\<rparr>)"
  "torrent_states c (infohash d) = None \<Longrightarrow> torrent_states (update_torrent_result c d) = torrent_states c"
  by (simp_all add: update_torrent_result_def split: option.splits)

lemma publish_torrent_result_simps:
  "torrent_states (publish_torrent_result c d) = torrent_states c"
  "notifications (publish_torrent_result c d) = notifications c"
  "seeders d = 0 \<Longrightarrow> popularity_community (publish_torrent_result c d) = popularity_community c"
  by (simp_all add: publish_torrent_result_def split: option.splits)

lemma notify_torrent_update_simps:
  "torrent_states (notify_torrent_update c d) = torrent_states c"
  "popularity_community (notify_torrent_update c d) = popularity_community c"
  by (simp_all add: notify_torrent_update_def)

lemma py_int_ex: "py_int (4001 / 4) = 1000"
  by (simp add: py_int_def)

text \<open>
  C5. Whenever \<^verbatim>\<open>on_gui_request_completed\<close> returns, the reconciled seeders are not
  negative; when they are 0 the queue of the popularity community is left as it was, so
  the queue changes only when the seeders are positive; and in every case a stored
  record of the torrent takes the reconciled seeders, leechers and time of the check.
\<close>

theorem zero_seeders_persisted_not_published:
  assumes "on_gui_request_completed c ih result now = Inr (final, c')"
  shows "\<exists>s l. reconciled_pair result = Some (s, l) \<and> 0 \<le> s \<and>
           (s = 0 \<longrightarrow> popularity_community c' = popularity_community c) \<and>
           (popularity_community c' \<noteq> popularity_community c \<longrightarrow> 0 < s) \<and>
           (\<forall>t. torrent_states c ih = Some t \<longrightarrow>
              torrent_states c' =
                (torrent_states c)(ih \<mapsto> t\<lparr>seeders := s, leechers := l, last_check := py_int now\<rparr>))"
proof -
  from assms obtain s l where r: "reconcile result = Inr (final, s, l)"
    by (auto simp: on_gui_request_completed_def Let_def split: sum.splits)
  let ?d = "\<lparr>infohash = ih, seeders = s, leechers = l, last_check = py_int now\<rparr>"
  from assms r have c': "c' = notify_torrent_update (publish_torrent_result (update_torrent_result c ?d) ?d) ?d"
    by (simp add: on_gui_request_completed_def Let_def)
  from r have p: "reconciled_pair result = Some (s, l)" by (auto simp: reconcile_of_pair)
  from reconciled_seeders_nonneg[OF p] have nn: "0 \<le> s" .
  have z: "s = 0 \<longrightarrow> popularity_community c' = popularity_community c"
    by (simp add: c' notify_torrent_update_simps publish_torrent_result_simps update_torrent_result_simps)
  have st: "\<forall>t. torrent_states c ih = Some t \<longrightarrow>
              torrent_states c' = (torrent_states c)(ih \<mapsto> t\<lparr>seeders := s, leechers := l, last_check := py_int now\<rparr>)"
    using update_torrent_result_simps(3)[of c ?d]
    by (simp add: c' notify_torrent_update_simps publish_torrent_result_simps)
  from nn z have "popularity_community c' \<noteq> popularity_community c \<longrightarrow> 0 < s" by (cases "s = 0") auto
  with p nn z st show ?thesis by blast
qed

theorem zero_seeders_persisted_not_published_witness:
  "reconciled_pair ex_zero_outcomes = Some (0, 7) \<and>
   popularity_community (snd (projr ex_zero_completed)) = Some [] \<and>
   torrent_states (snd (projr ex_zero_completed)) ''ab'' =
     Some (ex_torrent\<lparr>seeders := 0, leechers := 7, last_check := 1000\<rparr>)"
proof -
  have p: "reconciled_pair ex_zero_outcomes = Some (0, 7)"
    by (simp add: reconciled_pair_def reconcile_def ex_zero_outcomes_def)
  have "\<exists>final c'. ex_zero_completed = Inr (final, c')"
    by (simp add: ex_zero_completed_def on_gui_request_completed_def reconcile_def
        ex_zero_outcomes_def Let_def)
  then obtain final c' where e: "ex_zero_completed = Inr (final, c')" by blast
  from zero_seeders_persisted_not_published[OF e[unfolded ex_zero_completed_def]] p
  show ?thesis by (simp add: e py_int_ex ex_checker_simps)
qed






subsection \<open>The session registry\<close>

lemma append_stop_defer_simps:
  "session_list (append_stop_defer c k) = session_list c"
  "tracker_states (append_stop_defer c k) = tracker_states c"
  "session_stop_defer_list (append_stop_defer c k) = session_stop_defer_list c @ [(next_id c, k)]"
  "next_id (append_stop_defer c k) = Suc (next_id c)"
  "should_stop (append_stop_defer c k) = should_stop c"
  by (simp_all add: append_stop_defer_def)

lemma update_tracker_info_simps:
  "session_list (update_tracker_info c u b) = session_list c"
  "session_stop_defer_list (update_tracker_info c u b) = session_stop_defer_list c"
  "next_id (update_tracker_info c u b) = next_id c"
  "should_stop (update_tracker_info c u b) = should_stop c"
  by (simp_all add: update_tracker_info_def split: option.splits)

lemma ex_registered_simps:
  "session_list ex_registered = [(''DHT'', []), (''udp://a:1'', [0])]"
  "tracker_states ex_registered = [''udp://a:1'' \<mapsto> ex_tracker 3]"
  "next_id ex_registered = 1"
  "session_stop_defer_list ex_registered = []"
  by (simp_all add: ex_registered_def create_session_for_request_def create_tracker_session_def
      ex_checker_def init_def)

text \<open>The registry, read as a dictionary, after each of the operations that write it.\<close>

lemma clean_session_registry:
  "map_of (session_list (snd (clean_session c s))) =
     (case map_of (session_list c) (tracker_url s) of
        None \<Rightarrow> map_of (session_list c)
      | Some ss \<Rightarrow>
          if sid s \<notin> set ss then map_of (session_list c)
          else if remove1 (sid s) ss = [] \<and> tracker_url s \<noteq> ''DHT''
               then (map_of (session_list c))(tracker_url s := None)
               else (map_of (session_list c))(tracker_url s \<mapsto> remove1 (sid s) ss))"
  by (auto simp: clean_session_def Let_def append_stop_defer_simps update_tracker_info_simps
      update_conv' delete_conv' split: option.splits)

lemma create_session_registry:
  "map_of (session_list (snd (create_session_for_request malformed c url tmo))) =
     (if malformed url then map_of (session_list c)
      else (map_of (session_list c))(url \<mapsto>
             (case map_of (session_list c) url of None \<Rightarrow> [] | Some ss \<Rightarrow> ss) @ [next_id c]))"
  by (auto simp: create_session_for_request_def create_tracker_session_def Let_def
      map_of_map_entry update_conv' split: option.splits)

lemma add_dht_session_registry:
  "map_of (session_list (snd (add_dht_session c ih tmo))) =
     (case map_of (session_list c) ''DHT'' of
        None \<Rightarrow> map_of (session_list c)
      | Some ss \<Rightarrow> (map_of (session_list c))(''DHT'' \<mapsto> ss @ [next_id c]))"
  by (auto simp: add_dht_session_def Let_def update_conv' split: option.splits)

lemma clean_session_raises:
  "fst (clean_session c s) =
     (case map_of (session_list c) (tracker_url s) of
        None \<Rightarrow> Inl KeyError
      | Some ss \<Rightarrow> if sid s \<notin> set ss then Inl ValueError else Inr ())"
  by (auto simp: clean_session_def Let_def append_stop_defer_simps update_tracker_info_simps
      split: option.splits)

lemma clean_session_raise_state:
  "fst (clean_session c s) = Inl e \<Longrightarrow>
     snd (clean_session c s) =
       append_stop_defer (update_tracker_info c (tracker_url s) (\<not> is_failed s)) (Cleanup (sid s))"
  by (auto simp: clean_session_def Let_def append_stop_defer_simps update_tracker_info_simps
      split: option.splits if_splits)

lemma ex_first_clean:
  "fst (clean_session ex_registered (ex_session False)) = Inr ()"
  by (simp add: clean_session_raises ex_registered_simps ex_session_def)

lemma ex_first_clean_registry:
  "session_list (snd (clean_session ex_registered (ex_session False))) = [(''DHT'', [])]"
  by (simp add: clean_session_def Let_def append_stop_defer_simps update_tracker_info_simps
      ex_registered_simps ex_session_def)

text \<open>
  C9. The registry of a new checker has the key \<^verbatim>\<open>'DHT'\<close> and no other key with an
  empty list, and creating a session, adding a DHT session and cleaning a session each
  keep it so. Creating and adding remove no key; cleaning touches no key but the one
  of the session, and removes that key, when it is not \<^verbatim>\<open>'DHT'\<close>, exactly when the list
  of its sessions has become empty.
\<close>

theorem registry_invariant:
  "registry_inv (session_list (init store trackers_table community)) \<and>
   (registry_inv (session_list c) \<longrightarrow>
      registry_inv (session_list (snd (create_session_for_request malformed c url tmo)))) \<and>
   dom (map_of (session_list c)) \<subseteq>
     dom (map_of (session_list (snd (create_session_for_request malformed c url tmo)))) \<and>
   (registry_inv (session_list c) \<longrightarrow>
      registry_inv (session_list (snd (add_dht_session c ih tmo)))) \<and>
   dom (map_of (session_list c)) \<subseteq> dom (map_of (session_list (snd (add_dht_session c ih tmo)))) \<and>
   (registry_inv (session_list c) \<longrightarrow>
      registry_inv (session_list (snd (clean_session c s)))) \<and>
   (\<forall>k. k \<noteq> tracker_url s \<longrightarrow>
      map_of (session_list (snd (clean_session c s))) k = map_of (session_list c) k) \<and>
   (\<forall>ss. tracker_url s \<noteq> ''DHT'' \<longrightarrow> map_of (session_list c) (tracker_url s) = Some ss \<longrightarrow>
         sid s \<in> set ss \<longrightarrow>
         (map_of (session_list (snd (clean_session c s))) (tracker_url s) = None
            \<longleftrightarrow> remove1 (sid s) ss = []))"
proof (intro conjI impI allI)
  show "registry_inv (session_list (init store trackers_table community))"
    by (simp add: registry_inv_def init_def)
next
  assume "registry_inv (session_list c)"
  then show "registry_inv (session_list (snd (create_session_for_request malformed c url tmo)))"
    unfolding registry_inv_def create_session_registry by (auto split: option.splits)
next
  show "dom (map_of (session_list c)) \<subseteq>
          dom (map_of (session_list (snd (create_session_for_request malformed c url tmo))))"
    unfolding create_session_registry by auto
next
  assume "registry_inv (session_list c)"
  then show "registry_inv (session_list (snd (add_dht_session c ih tmo)))"
    unfolding registry_inv_def add_dht_session_registry by (auto split: option.splits)
next
  show "dom (map_of (session_list c)) \<subseteq> dom (map_of (session_list (snd (add_dht_session c ih tmo))))"
    unfolding add_dht_session_registry by (auto split: option.splits)
next
  assume "registry_inv (session_list c)"
  then show "registry_inv (session_list (snd (clean_session c s)))"
    unfolding registry_inv_def clean_session_registry by (auto split: option.splits if_splits)
next
  fix k assume "k \<noteq> tracker_url s"
  then show "map_of (session_list (snd (clean_session c s))) k = map_of (session_list c) k"
    unfolding clean_session_registry by (auto split: option.splits)
next
  fix ss
  assume "tracker_url s \<noteq> ''DHT''" "map_of (session_list c) (tracker_url s) = Some ss" "sid s \<in> set ss"
  then show "map_of (session_list (snd (clean_session c s))) (tracker_url s) = None
               \<longleftrightarrow> remove1 (sid s) ss = []"
    unfolding clean_session_registry by simp
qed

theorem registry_invariant_witness:
  "registry_inv (session_list ex_registered) \<and>
   session_list ex_registered = [(''DHT'', []), (''udp://a:1'', [0])] \<and>
   session_list (snd (clean_session ex_registered (ex_session False))) = [(''DHT'', [])] \<and>
   registry_inv (session_list (snd (clean_session ex_registered (ex_session False)))) \<and>
   map_of (session_list (snd (clean_session ex_registered (ex_session False)))) ''udp://a:1'' = None"
proof -
  have i: "registry_inv (session_list ex_registered)"
    by (simp add: registry_inv_def ex_registered_simps)
  have u: "tracker_url (ex_session False) \<noteq> ''DHT''"
    and m: "map_of (session_list ex_registered) (tracker_url (ex_session False)) = Some [0]"
    and n: "sid (ex_session False) \<in> set [0]"
    by (simp_all add: ex_session_def ex_registered_simps)
  from registry_invariant[of Map.empty Map.empty None ex_registered "\<lambda>u. False" "''udp://a:1''" 30
      "''ab''" "ex_session False"] i u m n
  have "registry_inv (session_list (snd (clean_session ex_registered (ex_session False))))"
    and "map_of (session_list (snd (clean_session ex_registered (ex_session False)))) (tracker_url (ex_session False)) = None"
    by simp_all
  with i ex_first_clean_registry show ?thesis
    by (simp add: ex_registered_simps ex_session_def)
qed


subsection \<open>Cleaning a session twice\<close>

text \<open>
  C8, as the specification states it, fails: cleaning the only session of a tracker
  succeeds the first time and raises KeyError the second time, the key of the tracker
  being gone.
\<close>

theorem second_clean_session_counterexample:
  "fst (clean_session ex_registered (ex_session False)) = Inr () \<and>
   fst (clean_session (snd (clean_session ex_registered (ex_session False))) (ex_session False)) = Inl KeyError"
  by (simp add: clean_session_raises clean_session_registry ex_registered_simps ex_session_def)

text \<open>
  C8, amended. After a session that was registered once has been cleaned, cleaning it
  again raises: KeyError when the first cleaning removed the key of its tracker,
  ValueError when the key is still there. Before it raises, the second call has told the
  tracker manager the outcome and started a cleanup once more; the registry is left
  exactly as the first cleaning left it.
\<close>

theorem second_clean_session_raises:
  assumes first: "clean_session c s = (Inr (), c1)"
    and reg: "map_of (session_list c) (tracker_url s) = Some ss"
    and once: "distinct ss"
    and same: "sid s' = sid s" "tracker_url s' = tracker_url s"
  shows "\<exists>c2. clean_session c1 s' =
                 (Inl (if remove1 (sid s) ss = [] \<and> tracker_url s \<noteq> ''DHT'' then KeyError else ValueError), c2) \<and>
              session_list c2 = session_list c1 \<and>
              session_stop_defer_list c2 = session_stop_defer_list c1 @ [(next_id c1, Cleanup (sid s))] \<and>
              tracker_states c2 = tracker_states (update_tracker_info c1 (tracker_url s) (\<not> is_failed s'))"
proof -
  from first have f: "fst (clean_session c s) = Inr ()" and c1: "c1 = snd (clean_session c s)" by simp_all
  from f reg have mem: "sid s \<in> set ss"
    by (simp add: clean_session_raises split: if_splits)
  have m1: "map_of (session_list c1) (tracker_url s) =
              (if remove1 (sid s) ss = [] \<and> tracker_url s \<noteq> ''DHT'' then None
               else Some (remove1 (sid s) ss))"
    unfolding c1 clean_session_registry using reg mem by simp
  from once have notin: "sid s \<notin> set (remove1 (sid s) ss)" by simp
  let ?e = "if remove1 (sid s) ss = [] \<and> tracker_url s \<noteq> ''DHT'' then KeyError else ValueError"
  have r: "fst (clean_session c1 s') = Inl ?e"
    using m1 notin by (simp add: clean_session_raises same)
  from clean_session_raise_state[OF r]
  have st: "snd (clean_session c1 s') =
              append_stop_defer (update_tracker_info c1 (tracker_url s) (\<not> is_failed s')) (Cleanup (sid s))"
    by (simp add: same)
  have "clean_session c1 s' = (Inl ?e, snd (clean_session c1 s'))"
    using r by (metis prod.collapse)
  moreover have "session_list (snd (clean_session c1 s')) = session_list c1"
    by (simp add: st append_stop_defer_simps update_tracker_info_simps)
  moreover have "session_stop_defer_list (snd (clean_session c1 s')) =
                   session_stop_defer_list c1 @ [(next_id c1, Cleanup (sid s))]"
    by (simp add: st append_stop_defer_simps update_tracker_info_simps)
  moreover have "tracker_states (snd (clean_session c1 s')) =
                   tracker_states (update_tracker_info c1 (tracker_url s) (\<not> is_failed s'))"
    by (simp add: st append_stop_defer_simps)
  ultimately show ?thesis by blast
qed

theorem second_clean_session_raises_witness:
  "clean_session ex_registered (ex_session False) =
     (Inr (), snd (clean_session ex_registered (ex_session False))) \<and>
   map_of (session_list ex_registered) (tracker_url (ex_session False)) = Some [0] \<and>
   fst (clean_session (snd (clean_session ex_registered (ex_session False))) (ex_session True)) = Inl KeyError \<and>
   session_list (snd (clean_session (snd (clean_session ex_registered (ex_session False))) (ex_session True))) =
     [(''DHT'', [])]"
proof -
  let ?c1 = "snd (clean_session ex_registered (ex_session False))"
  have a: "clean_session ex_registered (ex_session False) = (Inr (), ?c1)"
    using ex_first_clean by (metis prod.collapse)
  have b: "map_of (session_list ex_registered) (tracker_url (ex_session False)) = Some [0]"
    by (simp add: ex_registered_simps ex_session_def)
  have d: "distinct [0::nat]" by simp
  have s1: "sid (ex_session True) = sid (ex_session False)"
    and s2: "tracker_url (ex_session True) = tracker_url (ex_session False)"
    by (simp_all add: ex_session_def)
  from second_clean_session_raises[OF a b d s1 s2] a b ex_first_clean_registry show ?thesis
    by (auto simp: ex_session_def)
qed

subsection \<open>A cancelled probe\<close>

text \<open>
  C3 does not hold of the code. A tracker with 3 failures has one session; its probe
  fails with CancelledError. \<^verbatim>\<open>on_session_error\<close> skips its own call of
  \<^verbatim>\<open>update_tracker_info\<close>, but \<^verbatim>\<open>clean_session\<close>, which it calls first, has already
  reported \<^verbatim>\<open>not session.is_failed\<close>: the count becomes 4 when the session is marked
  failed and 0 when it is not.
\<close>

theorem cancellation_changes_failure_count:
  "map_option failures (tracker_states ex_registered ''udp://a:1'') = Some 3 \<and>
   map_option failures
     (tracker_states (snd (on_session_error ex_registered (ex_session True) ex_cancelled)) ''udp://a:1'') = Some 4 \<and>
   map_option failures
     (tracker_states (snd (on_session_error ex_registered (ex_session False) ex_cancelled)) ''udp://a:1'') = Some 0"
  by (simp add: on_session_error_def clean_session_def update_tracker_info_def append_stop_defer_def
      ex_registered_simps ex_session_def ex_cancelled_def ex_tracker_def Let_def)

subsection \<open>Shutdown\<close>











end
